theory Spec2Isabelle
  imports Main
begin

section \<open>The OTP input widget: sentinel character and change sanitization\<close>

text \<open>
  JavaScript strings are modelled as \<open>string\<close> (a list of characters, one per code
  unit); \<open>number\<close> values that hold lengths, offsets and \<open>maxLength\<close> are \<open>int\<close>.
\<close>

definition GHOST_CHARACTER :: char where
  "GHOST_CHARACTER = CHR ''@''"

text \<open>
  \<^verbatim>\<open>s.replace(c, '')\<close> with a one-character string \<open>c\<close> as the search value: only the
  first occurrence of \<open>c\<close> is replaced (by nothing), the rest of \<open>s\<close> is kept.
\<close>

fun replace_first :: "char \<Rightarrow> string \<Rightarrow> string" where
  "replace_first c [] = []"
| "replace_first c (x # xs) = (if x = c then xs else x # replace_first c xs)"

definition includeGhostCharacter :: "string \<Rightarrow> string" where
  "includeGhostCharacter s =
     (if GHOST_CHARACTER \<in> set s then s else GHOST_CHARACTER # s)"

definition removeGhostCharacter :: "string \<Rightarrow> string" where
  "removeGhostCharacter s = replace_first GHOST_CHARACTER s"

text \<open>
  The configured pattern, after \<^verbatim>\<open>new RegExp(pattern)\<close>, is used only through
  \<^verbatim>\<open>regexp.test\<close>; it is a parameter here: \<open>None\<close> is the \<^verbatim>\<open>null\<close> of a falsy pattern,
  \<open>Some p\<close> a regular expression whose \<^verbatim>\<open>test\<close> is the predicate \<open>p\<close>.
\<close>

type_synonym regexp = "(string \<Rightarrow> bool) option"

text \<open>
  What \<^verbatim>\<open>_changeListener\<close> does with a change event: either it calls
  \<^verbatim>\<open>e.preventDefault()\<close> and returns, or it calls \<^verbatim>\<open>onChange\<close> with the sanitized text.
\<close>

datatype change_outcome = Prevented | OnChange string

definition sanitize :: "string \<Rightarrow> string" where
  "sanitize text =
     (let withoutSpaces = replace_first (CHR '' '') text;
          withoutGhostCharacter = removeGhostCharacter withoutSpaces
      in withoutGhostCharacter)"

definition changeListener :: "regexp \<Rightarrow> string \<Rightarrow> change_outcome" where
  "changeListener regexp text =
     (let withoutSpaces = replace_first (CHR '' '') text;
          withoutGhostCharacter = removeGhostCharacter withoutSpaces
      in if length withoutGhostCharacter > 0 \<and>
            (case regexp of None \<Rightarrow> False | Some test \<Rightarrow> \<not> test withoutGhostCharacter)
         then Prevented
         else OnChange withoutGhostCharacter)"

text \<open>
  The value the widget shows: \<^verbatim>\<open>value = uncheckedValue ?? internalValue\<close> and
  \<^verbatim>\<open>onChange = uncheckedOnChange ?? setInternalValue\<close>. With no external handler the
  outcome of a change is applied to the internal value.
\<close>

definition commit_change :: "regexp \<Rightarrow> string \<Rightarrow> string \<Rightarrow> string" where
  "commit_change regexp text internalValue =
     (case changeListener regexp text of
        Prevented \<Rightarrow> internalValue
      | OnChange v \<Rightarrow> v)"

text \<open>The regular expression \<^verbatim>\<open>/ /\<close> (the pattern \<^verbatim>\<open>' '\<close> of the test page): a text passes when it holds a space.\<close>

definition pattern_space :: "string \<Rightarrow> bool" where
  "pattern_space s = (CHR '' '' \<in> set s)"

text \<open>
  The specification's reading of the sanitization: every space and every sentinel
  character is removed from the incoming text.
\<close>

definition fully_sanitized :: "string \<Rightarrow> string" where
  "fully_sanitized text = filter (\<lambda>c. c \<noteq> CHR '' '' \<and> c \<noteq> GHOST_CHARACTER) text"

text \<open>
  Modelled from the spec: \<^verbatim>\<open>REGEXP_ONLY_DIGITS\<close> (module \<^verbatim>\<open>./regexp\<close>), the default
  pattern, is digits-only: a text passes when it is a non-empty run of decimal digits.
\<close>

definition REGEXP_ONLY_DIGITS :: "string \<Rightarrow> bool" where
  "REGEXP_ONLY_DIGITS s = (s \<noteq> [] \<and> set s \<subseteq> set ''0123456789'')"


section \<open>The editable primitive and the mirrored selection\<close>

text \<open>
  The part of the component state the handlers read and write: the current \<^verbatim>\<open>value\<close>, the
  native selection of the input element (\<^verbatim>\<open>inputRef.current.selectionStart\<close> and
  \<^verbatim>\<open>selectionEnd\<close>, \<^verbatim>\<open>number | null\<close>), and the React state used for rendering.
\<close>

record otp_input =
  otp_value :: string
  selectionStart :: "int option"
  selectionEnd :: "int option"
  mirrorSelectionStart :: "int option"
  mirrorSelectionEnd :: "int option"
  isFocused :: bool
  isHoveringContainer :: bool

text \<open>The text inside the input element: \<^verbatim>\<open>value={includeGhostCharacter(value)}\<close>.\<close>

definition el_value :: "otp_input \<Rightarrow> string" where
  "el_value st = includeGhostCharacter (otp_value st)"

text \<open>
  The errors a handler can end with: the error \<^verbatim>\<open>_keyDownListener\<close> throws itself, and the
  \<^verbatim>\<open>InvalidStateError\<close> of \<^verbatim>\<open>setSelectionRange\<close>.
\<close>

datatype error = Could_not_determine_selection_type | InvalidStateError

text \<open>
  The browser's \<^verbatim>\<open>setSelectionRange(start, end)\<close>, as the HTML standard gives it: both
  arguments are converted to \<^verbatim>\<open>unsigned long\<close>, an argument beyond the length of the text
  points at its end, and when \<open>end \<le> start\<close> both ends of the selection are placed at
  \<open>end\<close>. The native \<^verbatim>\<open>select()\<close> selects the whole text.
\<close>

definition to_unsigned_long :: "int \<Rightarrow> int" where
  "to_unsigned_long x = x mod 4294967296"

definition setSelectionRange :: "int \<Rightarrow> int \<Rightarrow> otp_input \<Rightarrow> otp_input" where
  "setSelectionRange start end' st =
     (let len = int (length (el_value st));
          e = min (to_unsigned_long end') len;
          s = min (min (to_unsigned_long start) len) e
      in st\<lparr>selectionStart := Some s, selectionEnd := Some e\<rparr>)"

text \<open>
  On an input whose type has no text selection (a \<^verbatim>\<open>type\<close> passed through the props),
  \<^verbatim>\<open>selectionStart\<close> and \<^verbatim>\<open>selectionEnd\<close> are \<^verbatim>\<open>null\<close> and \<^verbatim>\<open>setSelectionRange\<close> throws.
  The select listener and the key-down listener call it only after they have found both
  ends to be numbers; the focus handler calls it unguarded.
\<close>

definition setSelectionRange_or_throw :: "int \<Rightarrow> int \<Rightarrow> otp_input \<Rightarrow> error + otp_input" where
  "setSelectionRange_or_throw start end' st =
     (if selectionStart st = None \<or> selectionEnd st = None then Inl InvalidStateError
      else Inr (setSelectionRange start end' st))"

definition native_select :: "otp_input \<Rightarrow> otp_input" where
  "native_select st =
     st\<lparr>selectionStart := Some 0, selectionEnd := Some (int (length (el_value st)))\<rparr>"

subsection \<open>The exposed \<^verbatim>\<open>select\<close> method\<close>

text \<open>
  \<^verbatim>\<open>useImperativeHandle\<close> runs at the mount and again whenever \<^verbatim>\<open>allowNavigation\<close>
  changes. Each run binds \<^verbatim>\<open>_select\<close> to the \<^verbatim>\<open>select\<close> the element has at that moment,
  which is the native one at the mount and the override of the run before afterwards, and
  installs a new override. The list holds the \<^verbatim>\<open>allowNavigation\<close> of the runs so far,
  the latest first; the empty list stands for the native \<^verbatim>\<open>select\<close>.
\<close>

fun select_method :: "bool list \<Rightarrow> otp_input \<Rightarrow> otp_input" where
  "select_method [] st = native_select st"
| "select_method (allowNavigation # earlier) st =
     (if \<not> allowNavigation then st
      else let st1 = select_method earlier st
           in st1\<lparr>mirrorSelectionStart := Some 0,
                  mirrorSelectionEnd := Some (int (length (el_value st1)))\<rparr>)"

subsection \<open>The select listener\<close>

definition fixSelection :: "int option \<Rightarrow> int option" where
  "fixSelection selection =
     (case selection of
        None \<Rightarrow> None
      | Some n \<Rightarrow> if n > 1 then Some (n - 1) else Some (n - 1))"

text \<open>The first half of \<^verbatim>\<open>_selectListener\<close>: a single caret is widened to one character.\<close>

definition select_widen :: "int \<Rightarrow> otp_input \<Rightarrow> otp_input" where
  "select_widen maxLength st =
     (case (selectionStart st, selectionEnd st) of
        (Some start0, Some end0) \<Rightarrow>
          if length (otp_value st) \<noteq> 0 then
            (let isSingleCaret = (start0 = end0);
                 isInsertMode = (start0 = int (length (otp_value st)) \<and>
                                 int (length (otp_value st)) < maxLength)
             in if isSingleCaret \<and> \<not> isInsertMode then
                  (let caretPos = start0;
                       (start, end') =
                          (if caretPos = 0 then (0, 1)
                           else if caretPos = int (length (otp_value st))
                           then (int (length (otp_value st)) - 1, int (length (otp_value st)))
                           else (caretPos, caretPos + 1))
                   in if start \<noteq> - 1 \<and> end' \<noteq> - 1
                      then setSelectionRange start end' st else st)
                else st)
          else st
      | _ \<Rightarrow> st)"

text \<open>The second half, inside \<^verbatim>\<open>syncTimeouts\<close>: the mirror is read off the native selection.\<close>

definition select_mirror :: "otp_input \<Rightarrow> otp_input" where
  "select_mirror st =
     st\<lparr>mirrorSelectionStart := fixSelection (selectionStart st),
        mirrorSelectionEnd := fixSelection (selectionEnd st)\<rparr>"

text \<open>
  Modelled from the spec: \<^verbatim>\<open>syncTimeouts\<close> (module \<^verbatim>\<open>./sync-timeouts\<close>) defers its callback
  until the native selection update of the current event is committed; the callback is
  run here on the state the event left behind.
\<close>

definition selectListener :: "int \<Rightarrow> otp_input \<Rightarrow> otp_input" where
  "selectListener maxLength st = select_mirror (select_widen maxLength st)"

subsection \<open>The key-down listener\<close>

record key_event =
  key :: string
  shiftKey :: bool
  metaKey :: bool
  ctrlKey :: bool
  altKey :: bool

datatype SelectionType = SEL_CARET | SEL_CHAR | SEL_MULTI

definition selection_type :: "int \<Rightarrow> int \<Rightarrow> error + SelectionType" where
  "selection_type sel0 sel1 =
     (if sel0 = sel1 then Inr SEL_CARET
      else if sel1 - sel0 = 1 then Inr SEL_CHAR
      else if sel1 - sel0 > 1 then Inr SEL_MULTI
      else Inl Could_not_determine_selection_type)"

text \<open>
  The result is the error thrown, or whether \<^verbatim>\<open>e.preventDefault()\<close> was called together
  with the state after the calls to \<^verbatim>\<open>setSelectionRange\<close>. The branch taken when
  navigation is allowed is \<open>navigate\<close>.
\<close>

definition navigate :: "key_event \<Rightarrow> SelectionType \<Rightarrow> int \<Rightarrow> int \<Rightarrow> otp_input \<Rightarrow> bool \<times> otp_input" where
  "navigate e selectionType sel0 sel1 st =
     (let (prevented1, st1) =
            (if key e = ''ArrowLeft'' \<and> selectionType = SEL_CHAR \<and> \<not> shiftKey e \<and>
                \<not> metaKey e \<and> \<not> ctrlKey e \<and> \<not> altKey e
             then (True, setSelectionRange (max (sel0 - 1) 0) (max (sel1 - 1) 1) st)
             else (False, st));
          len = int (length (otp_value st))
      in if altKey e \<and> \<not> shiftKey e \<and> (key e = ''ArrowLeft'' \<or> key e = ''ArrowRight'')
         then
           (let st2 = (if key e = ''ArrowLeft''
                       then setSelectionRange 0 (min 1 len) st1 else st1);
                st3 = (if key e = ''ArrowRight''
                       then setSelectionRange (max 0 (len - 1)) len st2 else st2)
            in (True, st3))
         else (prevented1, st1))"

definition keyDownListener :: "bool \<Rightarrow> key_event \<Rightarrow> otp_input \<Rightarrow> error + (bool \<times> otp_input)" where
  "keyDownListener allowNavigation e st =
     (case (selectionStart st, selectionEnd st) of
        (Some sel0, Some sel1) \<Rightarrow>
          (case selection_type sel0 sel1 of
             Inl err \<Rightarrow> Inl err
           | Inr selectionType \<Rightarrow>
               if key e = ''ArrowLeft'' \<or> key e = ''ArrowRight'' \<or> key e = ''ArrowUp'' \<or>
                  key e = ''ArrowDown'' \<or> key e = ''Home'' \<or> key e = ''End''
               then
                 if \<not> allowNavigation then Inr (True, st)
                 else Inr (navigate e selectionType sel0 sel1 st)
               else Inr (False, st))
      | _ \<Rightarrow> Inr (False, st))"

text \<open>
  \<^verbatim>\<open>onKeyDown\<close>: the listener, then the deferred select listener. When the listener did
  not prevent the default, the browser's own handling of the key (a parameter) moves the
  native selection first.
\<close>

definition onKeyDown ::
  "bool \<Rightarrow> int \<Rightarrow> (otp_input \<Rightarrow> otp_input) \<Rightarrow> key_event \<Rightarrow> otp_input \<Rightarrow> error + otp_input" where
  "onKeyDown allowNavigation maxLength browser_default e st =
     (case keyDownListener allowNavigation e st of
        Inl err \<Rightarrow> Inl err
      | Inr (prevented, st1) \<Rightarrow>
          Inr (selectListener maxLength (if prevented then st1 else browser_default st1)))"

subsection \<open>Focus and copy\<close>

text \<open>
  \<^verbatim>\<open>onFocus\<close>: when \<^verbatim>\<open>setSelectionRange\<close> throws, the mirror and the focus flag are not
  set.
\<close>

definition onFocus :: "int \<Rightarrow> otp_input \<Rightarrow> error + otp_input" where
  "onFocus maxLength st =
     (let start = min (int (length (el_value st)) - 1) (maxLength - 1);
          end' = int (length (el_value st))
      in case setSelectionRange_or_throw start end' st of
           Inl err \<Rightarrow> Inl err
         | Inr st1 \<Rightarrow>
             Inr (st1\<lparr>mirrorSelectionStart := Some start, mirrorSelectionEnd := Some end',
                       isFocused := True\<rparr>))"

text \<open>
  \<^verbatim>\<open>onCopy\<close>: the text the handler writes to the clipboard, \<open>None\<close> when
  \<^verbatim>\<open>'clipboard' in navigator\<close> is false and the handler leaves the event alone.
\<close>

definition onCopy :: "bool \<Rightarrow> otp_input \<Rightarrow> string option" where
  "onCopy clipboard_in_navigator st =
     (if clipboard_in_navigator then Some (removeGhostCharacter (otp_value st)) else None)"

text \<open>
  The browser's own handling of a copy event, which stays in place when the handler did
  not call \<^verbatim>\<open>e.preventDefault()\<close>: the selected part of the text of the input is written
  to the clipboard, and nothing is written when no text is selected.
\<close>

definition browser_copy :: "otp_input \<Rightarrow> string option" where
  "browser_copy st =
     (case (selectionStart st, selectionEnd st) of
        (Some s, Some e) \<Rightarrow>
          if s < e then Some (take (nat (e - s)) (drop (nat s) (el_value st))) else None
      | _ \<Rightarrow> None)"

text \<open>What a copy event writes to the clipboard, by the handler or else by the browser.\<close>

definition copy_event :: "bool \<Rightarrow> otp_input \<Rightarrow> string option" where
  "copy_event clipboard_in_navigator st =
     (case onCopy clipboard_in_navigator st of
        Some written \<Rightarrow> Some written
      | None \<Rightarrow> browser_copy st)"

section \<open>Rendering: the slots\<close>

record slot =
  char :: "char option"
  isActive :: bool
  hasFakeCaret :: bool

record render_context =
  slots :: "slot list"
  ctx_isFocused :: bool
  isHovering :: bool

text \<open>\<^verbatim>\<open>value[slotIdx]\<close> is \<^verbatim>\<open>undefined\<close> beyond the end of the string.\<close>

definition char_at :: "string \<Rightarrow> nat \<Rightarrow> char option" where
  "char_at s i = (if i < length s then Some (s ! i) else None)"

definition make_slot :: "otp_input \<Rightarrow> nat \<Rightarrow> slot" where
  "make_slot st slotIdx =
     (let active =
            (isFocused st \<and>
             (case (mirrorSelectionStart st, mirrorSelectionEnd st) of
                (Some ms, Some me) \<Rightarrow>
                  (ms = me \<and> int slotIdx = ms) \<or> (int slotIdx \<ge> ms \<and> int slotIdx < me)
              | _ \<Rightarrow> False));
          c = char_at (otp_value st) slotIdx
      in \<lparr>char = c, isActive = active, hasFakeCaret = (active \<and> c = None)\<rparr>)"

text \<open>\<^verbatim>\<open>Array.from({ length: maxLength })\<close> has no element when \<open>maxLength \<le> 0\<close>.\<close>

definition render_slots :: "int \<Rightarrow> otp_input \<Rightarrow> slot list" where
  "render_slots maxLength st = map (make_slot st) [0 ..< nat maxLength]"

definition render_ctx :: "int \<Rightarrow> bool \<Rightarrow> otp_input \<Rightarrow> render_context" where
  "render_ctx maxLength disabled st =
     \<lparr>slots = render_slots maxLength st,
      ctx_isFocused = isFocused st,
      isHovering = (\<not> disabled \<and> isHoveringContainer st)\<rparr>"

text \<open>The indices of the slots rendered as active.\<close>

definition active_slots :: "int \<Rightarrow> otp_input \<Rightarrow> nat list" where
  "active_slots maxLength st =
     filter (\<lambda>i. isActive (slots (render_ctx maxLength False st) ! i)) [0 ..< nat maxLength]"

section \<open>The completion effect\<close>

text \<open>
  What React keeps between renders for the two effects: the ref of \<^verbatim>\<open>usePrevious\<close> and
  the dependency array \<^verbatim>\<open>[maxLength, onComplete, value]\<close> of the completion effect as of
  the last commit. A callback is known by its identity (a number); \<open>None\<close> is an absent
  \<^verbatim>\<open>onComplete\<close>. A call of the callback is logged as the pair of its identity and its
  argument.
\<close>

record hooks =
  previous_ref :: "string option"
  effect_deps :: "(int \<times> nat option \<times> string) option"

definition initial_hooks :: hooks where
  "initial_hooks = \<lparr>previous_ref = None, effect_deps = None\<rparr>"

definition completion_effect ::
  "int \<Rightarrow> nat option \<Rightarrow> string \<Rightarrow> string option \<Rightarrow> (nat \<times> string) list" where
  "completion_effect maxLength onComplete v previousValue =
     (case previousValue of
        None \<Rightarrow> []
      | Some pv \<Rightarrow>
          if v \<noteq> pv \<and> int (length pv) < maxLength \<and> int (length v) = maxLength
          then (case onComplete of None \<Rightarrow> [] | Some f \<Rightarrow> [(f, v)])
          else [])"

text \<open>
  One render and its commit: \<^verbatim>\<open>usePrevious\<close> reads the ref during the render, its effect
  stores the rendered value; the completion effect runs when a dependency changed.
\<close>

definition render_commit ::
  "int \<times> nat option \<times> string \<Rightarrow> hooks \<Rightarrow> (nat \<times> string) list \<times> hooks" where
  "render_commit props h =
     (case props of (maxLength, onComplete, v) \<Rightarrow>
        (let previousValue = previous_ref h;
             calls = (if effect_deps h \<noteq> Some (maxLength, onComplete, v)
                      then completion_effect maxLength onComplete v previousValue
                      else [])
         in (calls, \<lparr>previous_ref = Some v, effect_deps = Some (maxLength, onComplete, v)\<rparr>)))"

fun run_renders :: "hooks \<Rightarrow> (int \<times> nat option \<times> string) list \<Rightarrow> (nat \<times> string) list" where
  "run_renders h [] = []"
| "run_renders h (p # ps) =
     (case render_commit p h of (calls, h') \<Rightarrow> calls @ run_renders h' ps)"

text \<open>
  The specification's reading: going through the successive renders, every step from a
  value shorter than \<open>maxLength\<close> to a value of length \<open>maxLength\<close> calls the callback of
  that render once with the new value, and no other step calls anything.
\<close>

fun transitions_into_full :: "string \<Rightarrow> (int \<times> nat option \<times> string) list \<Rightarrow> (nat \<times> string) list" where
  "transitions_into_full pv [] = []"
| "transitions_into_full pv ((maxLength, onComplete, v) # ps) =
     (if int (length pv) < maxLength \<and> int (length v) = maxLength
      then (case onComplete of None \<Rightarrow> [] | Some f \<Rightarrow> [(f, v)]) else [])
     @ transitions_into_full v ps"

section \<open>Auxiliary facts\<close>

lemma replace_first_remove1: "replace_first c s = remove1 c s"
  by (induction s) auto

lemma replace_first_single:
  "count_list s c \<le> 1 \<Longrightarrow> replace_first c s = filter (\<lambda>x. x \<noteq> c) s"
proof (induction s)
  case Nil
  then show ?case by simp
next
  case (Cons x xs)
  show ?case
  proof (cases "x = c")
    case True
    with Cons.prems have "c \<notin> set xs" by (simp add: count_list_0_iff)
    then have "filter (\<lambda>x. x \<noteq> c) xs = xs" by (induction xs) auto
    with True show ?thesis by simp
  next
    case False
    with Cons show ?thesis by simp
  qed
qed

lemma removeGhost_neq_includeGhost: "removeGhostCharacter s \<noteq> includeGhostCharacter s"
proof (cases "GHOST_CHARACTER \<in> set s")
  case True
  then have "length (removeGhostCharacter s) = length s - 1"
    by (simp add: removeGhostCharacter_def replace_first_remove1 length_remove1)
  moreover from True have "0 < length s" by (cases s) auto
  ultimately have "length (removeGhostCharacter s) < length s" by arith
  then have "length (removeGhostCharacter s) \<noteq> length (includeGhostCharacter s)"
    using True by (simp add: includeGhostCharacter_def)
  then show ?thesis by metis
next
  case False
  then show ?thesis
    by (simp add: removeGhostCharacter_def replace_first_remove1 includeGhostCharacter_def
          remove1_idem)
qed

lemma removeGhost_absent: "GHOST_CHARACTER \<notin> set s \<Longrightarrow> removeGhostCharacter s = s"
  by (simp add: removeGhostCharacter_def replace_first_remove1 remove1_idem)

text \<open>Within the text and in order, \<^verbatim>\<open>setSelectionRange\<close> sets exactly the range it is given.\<close>

lemma setSelectionRange_in_range:
  assumes "0 \<le> a" "a \<le> b" "b \<le> int (length (el_value st))"
    and "int (length (el_value st)) < 4294967296"
  shows "setSelectionRange a b st = st\<lparr>selectionStart := Some a, selectionEnd := Some b\<rparr>"
proof -
  have "to_unsigned_long a = a" "to_unsigned_long b = b"
    using assms by (simp_all add: to_unsigned_long_def)
  then show ?thesis
    using assms by (simp add: setSelectionRange_def Let_def min_def)
qed

text \<open>
  Once the hooks hold the value of the last render, the dependency check of the effect
  adds nothing: an unchanged dependency array means an unchanged value.
\<close>

lemma render_commit_step:
  assumes "previous_ref h = Some pv" "effect_deps h = Some (ml', cb', pv)"
  shows "render_commit (ml, cb, v) h =
           ((if int (length pv) < ml \<and> int (length v) = ml
             then (case cb of None \<Rightarrow> [] | Some f \<Rightarrow> [(f, v)]) else []),
            \<lparr>previous_ref = Some v, effect_deps = Some (ml, cb, v)\<rparr>)"
  using assms by (auto simp: render_commit_def completion_effect_def)

lemma first_render:
  "render_commit (ml, cb, v) initial_hooks =
     ([], \<lparr>previous_ref = Some v, effect_deps = Some (ml, cb, v)\<rparr>)"
  by (simp add: render_commit_def initial_hooks_def completion_effect_def)

lemma run_renders_transitions:
  "previous_ref h = Some pv \<Longrightarrow> effect_deps h = Some (ml', cb', pv) \<Longrightarrow>
   run_renders h ps = transitions_into_full pv ps"
proof (induction ps arbitrary: h pv ml' cb')
  case Nil
  then show ?case by simp
next
  case (Cons p ps)
  obtain ml cb v where p: "p = (ml, cb, v)" by (cases p)
  let ?h' = "\<lparr>previous_ref = Some v, effect_deps = Some (ml, cb, v)\<rparr>"
  have "run_renders ?h' ps = transitions_into_full v ps"
    by (rule Cons.IH) simp_all
  then show ?case
    using render_commit_step [OF Cons.prems, of ml cb v] by (simp add: p)
qed

section \<open>Completion callback\<close>

text \<open>
  C1. Over any sequence of renders starting at the mount, the calls of the completion
  callback are exactly the steps from a value shorter than \<open>maxLength\<close> to a value of
  length \<open>maxLength\<close>, one call each, with the new value. For a single update with some
  callback \<open>f\<close>: the callback is called once when the new value differs from the previous
  one, the previous one was shorter than \<open>maxLength\<close> and the new one has length
  \<open>maxLength\<close>, and is not called otherwise; so an update that stays at length
  \<open>maxLength\<close> calls nothing.
\<close>

theorem completion_fires_once_per_transition:
  "run_renders initial_hooks ((ml0, cb0, v0) # ps) = transitions_into_full v0 ps \<and>
   (previous_ref h = Some pv \<and> effect_deps h = Some (ml', cb', pv) \<longrightarrow>
      fst (render_commit (ml, Some f, v) h) =
        (if v \<noteq> pv \<and> int (length pv) < ml \<and> int (length v) = ml then [(f, v)] else []))"
proof
  have "run_renders \<lparr>previous_ref = Some v0, effect_deps = Some (ml0, cb0, v0)\<rparr> ps
          = transitions_into_full v0 ps"
    by (rule run_renders_transitions) simp_all
  then show "run_renders initial_hooks ((ml0, cb0, v0) # ps) = transitions_into_full v0 ps"
    by (simp add: first_render)
next
  show "previous_ref h = Some pv \<and> effect_deps h = Some (ml', cb', pv) \<longrightarrow>
      fst (render_commit (ml, Some f, v) h) =
        (if v \<noteq> pv \<and> int (length pv) < ml \<and> int (length v) = ml then [(f, v)] else [])"
    by (auto simp: render_commit_step)
qed

theorem completion_fires_once_per_transition_witness:
  "run_renders initial_hooks
     [(3, Some 7, ''12''), (3, Some 7, ''123''), (3, Some 8, ''123''), (3, Some 8, ''124'')]
     = [(7, ''123'')] \<and>
   fst (render_commit (3, Some 7, ''123'')
          \<lparr>previous_ref = Some ''12'', effect_deps = Some (3, Some 7, ''12'')\<rparr>)
     = [(7, ''123'')] \<and>
   fst (render_commit (3, Some 7, ''124'')
          \<lparr>previous_ref = Some ''123'', effect_deps = Some (3, Some 7, ''123'')\<rparr>)
     = []"
  using completion_fires_once_per_transition
          [of 3 "Some 7" "''12''"
              "[(3, Some 7, ''123''), (3, Some 8, ''123''), (3, Some 8, ''124'')]"
              "\<lparr>previous_ref = Some ''12'', effect_deps = Some (3, Some 7, ''12'')\<rparr>"
              "''12''" 3 "Some 7" 3 7 "''123''"]
        completion_fires_once_per_transition
          [of 3 "Some 7" "''12''" "[]"
              "\<lparr>previous_ref = Some ''123'', effect_deps = Some (3, Some 7, ''123'')\<rparr>"
              "''123''" 3 "Some 7" 3 7 "''124''"]
  by simp

section \<open>Change sanitization\<close>

text \<open>
  C2. The decision is taken on the text after two calls of \<^verbatim>\<open>replace\<close>, each of which
  drops one occurrence only, and not on the text with every space and sentinel removed.
  For the change \<^verbatim>\<open>@1 2 3\<close> the sanitized text is \<^verbatim>\<open>123\<close>. It passes the digits-only
  pattern, yet the change is prevented, because \<^verbatim>\<open>12 3\<close> is what is tested. It fails the
  pattern \<^verbatim>\<open>' '\<close>, yet the change is accepted, and \<^verbatim>\<open>12 3\<close> becomes the value.
\<close>

theorem change_decided_on_partly_sanitized_text:
  "fully_sanitized ''@1 2 3'' = ''123'' \<and>
   REGEXP_ONLY_DIGITS ''123'' \<and>
   changeListener (Some REGEXP_ONLY_DIGITS) ''@1 2 3'' = Prevented \<and>
   commit_change (Some REGEXP_ONLY_DIGITS) ''@1 2 3'' ''9'' = ''9'' \<and>
   \<not> pattern_space ''123'' \<and>
   changeListener (Some pattern_space) ''@1 2 3'' = OnChange ''12 3'' \<and>
   commit_change (Some pattern_space) ''@1 2 3'' ''9'' = ''12 3''"
  by (simp add: fully_sanitized_def changeListener_def commit_change_def
        removeGhostCharacter_def GHOST_CHARACTER_def REGEXP_ONLY_DIGITS_def pattern_space_def)

text \<open>
  C3. The sanitization is two calls of \<^verbatim>\<open>replace\<close> with a string as search value, each
  of which drops one occurrence only. With the pattern \<^verbatim>\<open>' '\<close> the text \<^verbatim>\<open>@1 2 3\<close> is
  accepted as \<^verbatim>\<open>12 3\<close>, which still holds a space; and \<^verbatim>\<open>@1@2\<close> is sanitized to \<^verbatim>\<open>1@2\<close>,
  which still holds the sentinel.
\<close>

theorem sanitize_removes_first_occurrence_only:
  "changeListener (Some pattern_space) ''@1 2 3'' = OnChange ''12 3'' \<and>
   sanitize ''@1 2 3'' = ''12 3'' \<and> CHR '' '' \<in> set (sanitize ''@1 2 3'') \<and>
   sanitize ''@1@2'' = ''1@2'' \<and> GHOST_CHARACTER \<in> set (sanitize ''@1@2'')"
  by (simp add: changeListener_def sanitize_def removeGhostCharacter_def GHOST_CHARACTER_def
        pattern_space_def)

section \<open>Selection mirror\<close>

text \<open>
  C4. The mirror update leaves the native selection as it is and sets each end of the
  mirrored selection to the matching native end minus one, an absent end staying absent.
  So after the select listener the mirror is the native selection the (possibly widening)
  first half left, shifted left by one. Where nothing is widened this is the selection of
  the event itself: ends \<open>s \<noteq> e\<close> give the mirror \<open>(s - 1, e - 1)\<close>, an absent end gives
  an absent mirrored end. A caret strictly inside a value is widened to \<open>(p, p + 1)\<close> and
  mirrored as \<open>(p - 1, p)\<close>. \<^verbatim>\<open>fixSelection\<close> maps every number \<open>n\<close> to \<open>n - 1\<close>, so
  1 to 0, and \<^verbatim>\<open>null\<close> to \<^verbatim>\<open>null\<close>.
\<close>

theorem mirror_shifted_left_by_one:
  "select_mirror st =
     st\<lparr>mirrorSelectionStart := map_option (\<lambda>n. n - 1) (selectionStart st),
        mirrorSelectionEnd := map_option (\<lambda>n. n - 1) (selectionEnd st)\<rparr> \<and>
   selectListener maxLength st =
     (select_widen maxLength st)
       \<lparr>mirrorSelectionStart :=
          map_option (\<lambda>n. n - 1) (selectionStart (select_widen maxLength st)),
        mirrorSelectionEnd :=
          map_option (\<lambda>n. n - 1) (selectionEnd (select_widen maxLength st))\<rparr> \<and>
   (selectionStart st = Some s \<and> selectionEnd st = Some e \<and> s \<noteq> e \<longrightarrow>
      selectListener maxLength st =
        st\<lparr>mirrorSelectionStart := Some (s - 1), mirrorSelectionEnd := Some (e - 1)\<rparr>) \<and>
   (selectionStart st = None \<or> selectionEnd st = None \<longrightarrow>
      selectListener maxLength st =
        st\<lparr>mirrorSelectionStart := map_option (\<lambda>n. n - 1) (selectionStart st),
           mirrorSelectionEnd := map_option (\<lambda>n. n - 1) (selectionEnd st)\<rparr>) \<and>
   (selectionStart st = Some p \<and> selectionEnd st = Some p \<and> 0 < p \<and>
    p < int (length (otp_value st)) \<and> int (length (el_value st)) < 4294967296 \<longrightarrow>
      selectListener maxLength st =
        st\<lparr>selectionStart := Some p, selectionEnd := Some (p + 1),
           mirrorSelectionStart := Some (p - 1), mirrorSelectionEnd := Some p\<rparr>) \<and>
   fixSelection (Some n) = Some (n - 1) \<and> fixSelection (Some 1) = Some 0 \<and>
   fixSelection None = None"
proof -
  have shift: "fixSelection x = map_option (\<lambda>n. n - 1) x" for x
    by (cases x) (simp_all add: fixSelection_def)
  have mirror: "select_mirror st =
     st\<lparr>mirrorSelectionStart := map_option (\<lambda>n. n - 1) (selectionStart st),
        mirrorSelectionEnd := map_option (\<lambda>n. n - 1) (selectionEnd st)\<rparr>" for st
    by (simp add: select_mirror_def shift)
  have range: "selectionStart st = Some s \<and> selectionEnd st = Some e \<and> s \<noteq> e \<longrightarrow>
      selectListener maxLength st =
        st\<lparr>mirrorSelectionStart := Some (s - 1), mirrorSelectionEnd := Some (e - 1)\<rparr>"
    by (simp add: selectListener_def select_widen_def mirror)
  have absent: "selectionStart st = None \<or> selectionEnd st = None \<longrightarrow>
      selectListener maxLength st =
        st\<lparr>mirrorSelectionStart := map_option (\<lambda>n. n - 1) (selectionStart st),
           mirrorSelectionEnd := map_option (\<lambda>n. n - 1) (selectionEnd st)\<rparr>"
    by (auto simp: selectListener_def select_widen_def mirror split: option.splits)
  have caret: "selectionStart st = Some p \<and> selectionEnd st = Some p \<and> 0 < p \<and>
    p < int (length (otp_value st)) \<and> int (length (el_value st)) < 4294967296 \<longrightarrow>
      selectListener maxLength st =
        st\<lparr>selectionStart := Some p, selectionEnd := Some (p + 1),
           mirrorSelectionStart := Some (p - 1), mirrorSelectionEnd := Some p\<rparr>"
  proof
    assume a: "selectionStart st = Some p \<and> selectionEnd st = Some p \<and> 0 < p \<and>
      p < int (length (otp_value st)) \<and> int (length (el_value st)) < 4294967296"
    have "length (otp_value st) \<le> length (el_value st)"
      by (simp add: el_value_def includeGhostCharacter_def)
    with a have "p + 1 \<le> int (length (el_value st))" by linarith
    with a have "setSelectionRange p (p + 1) st =
        st\<lparr>selectionStart := Some p, selectionEnd := Some (p + 1)\<rparr>"
      by (intro setSelectionRange_in_range) simp_all
    with a have "select_widen maxLength st =
        st\<lparr>selectionStart := Some p, selectionEnd := Some (p + 1)\<rparr>"
      by (auto simp: select_widen_def)
    then show "selectListener maxLength st =
        st\<lparr>selectionStart := Some p, selectionEnd := Some (p + 1),
           mirrorSelectionStart := Some (p - 1), mirrorSelectionEnd := Some p\<rparr>"
      by (simp add: selectListener_def mirror)
  qed
  show ?thesis
    using mirror [of st] mirror [of "select_widen maxLength st"] range absent caret
    by (simp add: selectListener_def fixSelection_def)
qed

theorem mirror_shifted_left_by_one_witness:
  "selectListener 6 \<lparr>otp_value = ''12'', selectionStart = Some 1, selectionEnd = Some 3,
      mirrorSelectionStart = None, mirrorSelectionEnd = None,
      isFocused = True, isHoveringContainer = False\<rparr>
   = \<lparr>otp_value = ''12'', selectionStart = Some 1, selectionEnd = Some 3,
      mirrorSelectionStart = Some 0, mirrorSelectionEnd = Some 2,
      isFocused = True, isHoveringContainer = False\<rparr> \<and>
   selectListener 6 \<lparr>otp_value = ''12'', selectionStart = None, selectionEnd = None,
      mirrorSelectionStart = Some 0, mirrorSelectionEnd = Some 2,
      isFocused = True, isHoveringContainer = False\<rparr>
   = \<lparr>otp_value = ''12'', selectionStart = None, selectionEnd = None,
      mirrorSelectionStart = None, mirrorSelectionEnd = None,
      isFocused = True, isHoveringContainer = False\<rparr> \<and>
   selectListener 6 \<lparr>otp_value = ''123'', selectionStart = Some 1, selectionEnd = Some 1,
      mirrorSelectionStart = None, mirrorSelectionEnd = None,
      isFocused = True, isHoveringContainer = False\<rparr>
   = \<lparr>otp_value = ''123'', selectionStart = Some 1, selectionEnd = Some 2,
      mirrorSelectionStart = Some 0, mirrorSelectionEnd = Some 1,
      isFocused = True, isHoveringContainer = False\<rparr>"
  using mirror_shifted_left_by_one
          [of "\<lparr>otp_value = ''12'', selectionStart = Some 1, selectionEnd = Some 3,
                mirrorSelectionStart = None, mirrorSelectionEnd = None,
                isFocused = True, isHoveringContainer = False\<rparr>" 6 1 3 1 1]
        mirror_shifted_left_by_one
          [of "\<lparr>otp_value = ''12'', selectionStart = None, selectionEnd = None,
                mirrorSelectionStart = Some 0, mirrorSelectionEnd = Some 2,
                isFocused = True, isHoveringContainer = False\<rparr>" 6 1 3 1 1]
        mirror_shifted_left_by_one
          [of "\<lparr>otp_value = ''123'', selectionStart = Some 1, selectionEnd = Some 1,
                mirrorSelectionStart = None, mirrorSelectionEnd = None,
                isFocused = True, isHoveringContainer = False\<rparr>" 6 1 3 1 1]
  by (simp add: selectListener_def select_widen_def select_mirror_def fixSelection_def
        setSelectionRange_def to_unsigned_long_def el_value_def includeGhostCharacter_def
        GHOST_CHARACTER_def)

section \<open>Keyboard navigation\<close>

text \<open>
  C5. With value \<^verbatim>\<open>12\<close> the input holds \<^verbatim>\<open>@12\<close>. Alt+ArrowRight sets the native
  selection to \<open>(max 0 (2 - 1), 2) = (1, 2)\<close>, offsets counted in the value and not in
  the text of the input; the mirror becomes \<open>(0, 1)\<close> and slot 0 is the active slot.
  Alt+ArrowLeft sets \<open>(0, 1)\<close>, the sentinel; the mirror becomes \<open>(-1, 0)\<close> and no slot
  is active.
\<close>

theorem alt_arrow_offsets_ignore_sentinel:
  "onKeyDown True 6 browser_default
     \<lparr>key = ''ArrowRight'', shiftKey = False, metaKey = False, ctrlKey = False, altKey = True\<rparr>
     \<lparr>otp_value = ''12'', selectionStart = Some 2, selectionEnd = Some 3,
      mirrorSelectionStart = Some 1, mirrorSelectionEnd = Some 2,
      isFocused = True, isHoveringContainer = False\<rparr>
   = Inr \<lparr>otp_value = ''12'', selectionStart = Some 1, selectionEnd = Some 2,
          mirrorSelectionStart = Some 0, mirrorSelectionEnd = Some 1,
          isFocused = True, isHoveringContainer = False\<rparr> \<and>
   active_slots 6 \<lparr>otp_value = ''12'', selectionStart = Some 1, selectionEnd = Some 2,
          mirrorSelectionStart = Some 0, mirrorSelectionEnd = Some 1,
          isFocused = True, isHoveringContainer = False\<rparr> = [0] \<and>
   onKeyDown True 6 browser_default
     \<lparr>key = ''ArrowLeft'', shiftKey = False, metaKey = False, ctrlKey = False, altKey = True\<rparr>
     \<lparr>otp_value = ''12'', selectionStart = Some 2, selectionEnd = Some 3,
      mirrorSelectionStart = Some 1, mirrorSelectionEnd = Some 2,
      isFocused = True, isHoveringContainer = False\<rparr>
   = Inr \<lparr>otp_value = ''12'', selectionStart = Some 0, selectionEnd = Some 1,
          mirrorSelectionStart = Some (- 1), mirrorSelectionEnd = Some 0,
          isFocused = True, isHoveringContainer = False\<rparr> \<and>
   active_slots 6 \<lparr>otp_value = ''12'', selectionStart = Some 0, selectionEnd = Some 1,
          mirrorSelectionStart = Some (- 1), mirrorSelectionEnd = Some 0,
          isFocused = True, isHoveringContainer = False\<rparr> = []"
  by (simp add: onKeyDown_def keyDownListener_def selection_type_def navigate_def
        setSelectionRange_def to_unsigned_long_def el_value_def includeGhostCharacter_def
        GHOST_CHARACTER_def selectListener_def select_widen_def select_mirror_def
        fixSelection_def active_slots_def render_ctx_def render_slots_def make_slot_def
        char_at_def upt_conv_Cons)

text \<open>
  C9. The error is raised exactly for a selection that is none of the three shapes, and
  with \<open>sel0 \<le> sel1\<close> it is never raised: the selection is a caret exactly when the
  ends are equal, one character exactly when they differ by one, several characters
  exactly when they differ by more, and the key-down listener returns normally.
\<close>

theorem selection_always_classified:
  "(selection_type sel0 sel1 = Inl Could_not_determine_selection_type \<longleftrightarrow>
      \<not> (sel0 = sel1 \<or> sel1 - sel0 = 1 \<or> sel1 - sel0 > 1)) \<and>
   (sel0 \<le> sel1 \<longrightarrow>
     (selection_type sel0 sel1 = Inr SEL_CARET \<longleftrightarrow> sel0 = sel1) \<and>
     (selection_type sel0 sel1 = Inr SEL_CHAR \<longleftrightarrow> sel1 - sel0 = 1) \<and>
     (selection_type sel0 sel1 = Inr SEL_MULTI \<longleftrightarrow> sel1 - sel0 > 1) \<and>
     selection_type sel0 sel1 \<noteq> Inl Could_not_determine_selection_type \<and>
     (selectionStart st = Some sel0 \<and> selectionEnd st = Some sel1 \<longrightarrow>
        (\<exists>r. keyDownListener allowNavigation e st = Inr r)))"
  by (auto simp: selection_type_def keyDownListener_def)

theorem selection_always_classified_witness:
  "(2::int) \<le> 3 \<and> selection_type 2 3 = Inr SEL_CHAR \<and>
   selection_type 2 3 \<noteq> Inl Could_not_determine_selection_type \<and>
   (\<exists>r. keyDownListener True
      \<lparr>key = ''ArrowLeft'', shiftKey = False, metaKey = False, ctrlKey = False, altKey = False\<rparr>
      \<lparr>otp_value = ''12'', selectionStart = Some 2, selectionEnd = Some 3,
       mirrorSelectionStart = Some 1, mirrorSelectionEnd = Some 2,
       isFocused = True, isHoveringContainer = False\<rparr> = Inr r)"
  using selection_always_classified
          [of 2 3
              "\<lparr>otp_value = ''12'', selectionStart = Some 2, selectionEnd = Some 3,
                mirrorSelectionStart = Some 1, mirrorSelectionEnd = Some 2,
                isFocused = True, isHoveringContainer = False\<rparr>"
              True
              "\<lparr>key = ''ArrowLeft'', shiftKey = False, metaKey = False, ctrlKey = False,
                altKey = False\<rparr>"]
  by simp

section \<open>The exposed select method\<close>

text \<open>
  C6. With value \<^verbatim>\<open>12\<close> and navigation allowed since the mount, \<^verbatim>\<open>select()\<close> sets the
  mirrored end to the length of the text of the input, \<^verbatim>\<open>@12\<close>, which is 3 and not the
  length 2 of the value: slots 0, 1 and 2 are active, one more than the value has
  characters. With navigation disabled the method changes nothing.
\<close>

theorem select_method_counts_sentinel:
  "select_method [True]
     \<lparr>otp_value = ''12'', selectionStart = Some 2, selectionEnd = Some 3,
      mirrorSelectionStart = Some 1, mirrorSelectionEnd = Some 2,
      isFocused = True, isHoveringContainer = False\<rparr>
   = \<lparr>otp_value = ''12'', selectionStart = Some 0, selectionEnd = Some 3,
      mirrorSelectionStart = Some 0, mirrorSelectionEnd = Some 3,
      isFocused = True, isHoveringContainer = False\<rparr> \<and>
   active_slots 6 \<lparr>otp_value = ''12'', selectionStart = Some 0, selectionEnd = Some 3,
      mirrorSelectionStart = Some 0, mirrorSelectionEnd = Some 3,
      isFocused = True, isHoveringContainer = False\<rparr> = [0, 1, 2] \<and>
   select_method (False # earlier) st = st"
  by (simp add: native_select_def el_value_def includeGhostCharacter_def
        GHOST_CHARACTER_def active_slots_def render_ctx_def render_slots_def make_slot_def
        char_at_def upt_conv_Cons)

section \<open>Focus\<close>

text \<open>
  C7. With the full value \<^verbatim>\<open>123456\<close> and \<open>maxLength = 6\<close> the input holds \<^verbatim>\<open>@123456\<close>.
  A focus event sets the native and the mirrored selection to start
  \<open>min (7 - 1) (6 - 1) = 5\<close> and end 7: a window of two characters, not of one. Once the
  select listener has run the mirror is \<open>(4, 6)\<close>, and the slots 4 and 5 are both active.
\<close>

theorem onFocus_full_value_window_of_two:
  "onFocus 6 \<lparr>otp_value = ''123456'', selectionStart = Some 0, selectionEnd = Some 0,
      mirrorSelectionStart = None, mirrorSelectionEnd = None,
      isFocused = False, isHoveringContainer = False\<rparr>
   = Inr \<lparr>otp_value = ''123456'', selectionStart = Some 5, selectionEnd = Some 7,
      mirrorSelectionStart = Some 5, mirrorSelectionEnd = Some 7,
      isFocused = True, isHoveringContainer = False\<rparr> \<and>
   (7::int) - 5 = 2 \<and>
   selectListener 6 \<lparr>otp_value = ''123456'', selectionStart = Some 5, selectionEnd = Some 7,
      mirrorSelectionStart = Some 5, mirrorSelectionEnd = Some 7,
      isFocused = True, isHoveringContainer = False\<rparr>
   = \<lparr>otp_value = ''123456'', selectionStart = Some 5, selectionEnd = Some 7,
      mirrorSelectionStart = Some 4, mirrorSelectionEnd = Some 6,
      isFocused = True, isHoveringContainer = False\<rparr> \<and>
   active_slots 6 \<lparr>otp_value = ''123456'', selectionStart = Some 5, selectionEnd = Some 7,
      mirrorSelectionStart = Some 4, mirrorSelectionEnd = Some 6,
      isFocused = True, isHoveringContainer = False\<rparr> = [4, 5]"
  by (simp add: onFocus_def setSelectionRange_or_throw_def setSelectionRange_def
        to_unsigned_long_def el_value_def includeGhostCharacter_def GHOST_CHARACTER_def
        selectListener_def select_widen_def select_mirror_def fixSelection_def
        active_slots_def render_ctx_def render_slots_def make_slot_def char_at_def
        upt_conv_Cons)

section \<open>Copy\<close>

theorem copy_event_counterexample:
  "copy_event True \<lparr>otp_value = ''1 2'', selectionStart = Some 0, selectionEnd = Some 4,
      mirrorSelectionStart = Some 0, mirrorSelectionEnd = Some 3,
      isFocused = True, isHoveringContainer = False\<rparr> = Some ''1 2'' \<and>
   copy_event True \<lparr>otp_value = ''1 2'', selectionStart = Some 0, selectionEnd = Some 4,
      mirrorSelectionStart = Some 0, mirrorSelectionEnd = Some 3,
      isFocused = True, isHoveringContainer = False\<rparr> \<noteq> Some ''12'' \<and>
   copy_event False \<lparr>otp_value = ''12'', selectionStart = Some 0, selectionEnd = Some 3,
      mirrorSelectionStart = Some 0, mirrorSelectionEnd = Some 3,
      isFocused = True, isHoveringContainer = False\<rparr> = Some ''@12''"
  by (simp add: copy_event_def onCopy_def browser_copy_def removeGhostCharacter_def
        GHOST_CHARACTER_def el_value_def includeGhostCharacter_def)

text \<open>
  C8, amended. When the clipboard interface is present, a copy event writes the current
  value without its sentinel and with its spaces kept: the value itself when it holds no
  sentinel, and the value with the sentinel filtered out when it holds at most one; the
  text written is then never the sentinel-augmented text of the input. When the clipboard
  interface is absent the handler leaves the event alone, and what is written is the
  selected part of the text of the input, the sentinel with it when it is selected.
\<close>

theorem copy_event_written_text:
  "copy_event True st \<noteq> Some (el_value st) \<and>
   (GHOST_CHARACTER \<notin> set (otp_value st) \<longrightarrow> copy_event True st = Some (otp_value st)) \<and>
   (count_list (otp_value st) GHOST_CHARACTER \<le> 1 \<longrightarrow>
      copy_event True st = Some (filter (\<lambda>c. c \<noteq> GHOST_CHARACTER) (otp_value st))) \<and>
   onCopy False st = None \<and>
   (selectionStart st = Some s \<and> selectionEnd st = Some e \<and> s < e \<longrightarrow>
      copy_event False st = Some (take (nat (e - s)) (drop (nat s) (el_value st))))"
  using removeGhost_neq_includeGhost [of "otp_value st"]
    replace_first_single [of "otp_value st" GHOST_CHARACTER]
    removeGhost_absent [of "otp_value st"]
  by (simp add: copy_event_def browser_copy_def onCopy_def el_value_def
        removeGhostCharacter_def)

theorem copy_event_written_text_witness:
  "GHOST_CHARACTER \<notin> set ''1 2'' \<and> count_list ''1 2'' GHOST_CHARACTER \<le> 1 \<and>
   copy_event True \<lparr>otp_value = ''1 2'', selectionStart = Some 1, selectionEnd = Some 4,
      mirrorSelectionStart = Some 0, mirrorSelectionEnd = Some 3,
      isFocused = True, isHoveringContainer = False\<rparr> = Some ''1 2'' \<and>
   copy_event True \<lparr>otp_value = ''1 2'', selectionStart = Some 1, selectionEnd = Some 4,
      mirrorSelectionStart = Some 0, mirrorSelectionEnd = Some 3,
      isFocused = True, isHoveringContainer = False\<rparr> \<noteq> Some ''@1 2'' \<and>
   copy_event False \<lparr>otp_value = ''1 2'', selectionStart = Some 1, selectionEnd = Some 4,
      mirrorSelectionStart = Some 0, mirrorSelectionEnd = Some 3,
      isFocused = True, isHoveringContainer = False\<rparr> = Some ''1 2''"
  using copy_event_written_text
          [of "\<lparr>otp_value = ''1 2'', selectionStart = Some 1, selectionEnd = Some 4,
                mirrorSelectionStart = Some 0, mirrorSelectionEnd = Some 3,
                isFocused = True, isHoveringContainer = False\<rparr>" 1 4]
  by (simp add: GHOST_CHARACTER_def el_value_def includeGhostCharacter_def)

section \<open>Slots\<close>

text \<open>
  C10. For \<open>maxLength \<ge> 0\<close> the render context holds exactly \<open>maxLength\<close> slots,
  whatever the length of the value; the character of slot \<open>i\<close> is the \<open>i\<close>-th character
  of the value when \<open>i\<close> is below the length of the value and absent otherwise; and a
  slot shows the fake caret exactly when it is active and has no character.
\<close>

theorem slots_of_render:
  "0 \<le> maxLength \<Longrightarrow>
     int (length (slots (render_ctx maxLength disabled st))) = maxLength \<and>
     (\<forall>i < nat maxLength.
        char (slots (render_ctx maxLength disabled st) ! i) =
          (if i < length (otp_value st) then Some (otp_value st ! i) else None) \<and>
        hasFakeCaret (slots (render_ctx maxLength disabled st) ! i) =
          (isActive (slots (render_ctx maxLength disabled st) ! i) \<and>
           char (slots (render_ctx maxLength disabled st) ! i) = None))"
  by (simp add: render_ctx_def render_slots_def make_slot_def char_at_def Let_def)

theorem slots_of_render_witness:
  "(0::int) \<le> 3 \<and> (2::nat) < nat 3 \<and>
   int (length (slots (render_ctx 3 False \<lparr>otp_value = ''12'', selectionStart = Some 3,
      selectionEnd = Some 3, mirrorSelectionStart = Some 2, mirrorSelectionEnd = Some 2,
      isFocused = True, isHoveringContainer = False\<rparr>))) = 3 \<and>
   char (slots (render_ctx 3 False \<lparr>otp_value = ''12'', selectionStart = Some 3,
      selectionEnd = Some 3, mirrorSelectionStart = Some 2, mirrorSelectionEnd = Some 2,
      isFocused = True, isHoveringContainer = False\<rparr>) ! 2) = None \<and>
   hasFakeCaret (slots (render_ctx 3 False \<lparr>otp_value = ''12'', selectionStart = Some 3,
      selectionEnd = Some 3, mirrorSelectionStart = Some 2, mirrorSelectionEnd = Some 2,
      isFocused = True, isHoveringContainer = False\<rparr>) ! 2)"
  using slots_of_render
          [of 3 False "\<lparr>otp_value = ''12'', selectionStart = Some 3, selectionEnd = Some 3,
                        mirrorSelectionStart = Some 2, mirrorSelectionEnd = Some 2,
                        isFocused = True, isHoveringContainer = False\<rparr>"]
  by (simp add: render_ctx_def render_slots_def make_slot_def char_at_def upt_conv_Cons)

end
